theory Spec2Isabelle
  imports Complex_Main
begin

section \<open>The power-shift sigma scheduler\<close>

text \<open>
  A shallow embedding of \<^verbatim>\<open>__init__.py\<close>: the schedule generator
  \<^verbatim>\<open>power_shift_scheduler\<close>, the node method \<^verbatim>\<open>get_sigmas\<close> and the
  registration block at the end of the module.

  Numbers. A float64 is a finite real, an infinity or NaN (\<open>np_float\<close>). The
  special cases of IEEE 754 that decide which branch the program takes are written
  out: \<open>x ** 0 = 1\<close> for every \<open>x\<close>, \<open>0 ** y\<close>, the powers of a negative base,
  \<open>inf * 0\<close>. The two zeros are one value: a negative zero only ever reaches
  \<^verbatim>\<open>int\<close>, which maps it to 0. Sigma values are only copied by the program, never
  computed with; they are reals.

  Rounding. The division \<^verbatim>\<open>steps/denoise\<close> of \<^verbatim>\<open>get_sigmas\<close> is one IEEE operation
  and is rounded to the nearest float64, ties to even, with overflow to infinity
  (\<open>float64_round\<close>). The array arithmetic of lines 7 to 11 goes through the C
  library's \<^verbatim>\<open>pow\<close>, whose last bit is not specified; it is exact real arithmetic
  here, so an index computed next to a rounding tie can differ by one from the
  program's. The properties below are about the range of the indices and the shape of
  the output, which hold for both.

  Resources. \<^verbatim>\<open>numpy.linspace\<close> allocates an array of \<^verbatim>\<open>steps\<close> samples and raises
  when it cannot: ValueError beyond the index type, MemoryError when memory is short.
  What it can allocate depends on the build and the machine, and is a parameter
  \<open>alloc\<close> of every function that reaches \<^verbatim>\<open>linspace\<close>: \<open>alloc n\<close> is the error raised
  for \<open>n\<close> samples, or \<open>None\<close>.
\<close>

subsection \<open>Python and numpy values\<close>

datatype py_error = ValueError | OverflowError | IndexError | ZeroDivisionError | MemoryError

type_synonym allocator = "int \<Rightarrow> py_error option"

datatype np_float = Fin real | PInf | NInf | NaN

text \<open>The argument \<^verbatim>\<open>discard_penultimate\<close> is tested with \<^verbatim>\<open>is True\<close>, so what
  is passed matters beyond its truth value.\<close>

datatype py_value = PyBool bool | PyInt int | PyFloat real | PyStr string | PyNone

fun py_truthy :: "py_value \<Rightarrow> bool" where
  "py_truthy (PyBool b) = b"
| "py_truthy (PyInt i) = (i \<noteq> 0)"
| "py_truthy (PyFloat r) = (r \<noteq> 0)"
| "py_truthy (PyStr s) = (s \<noteq> [])"
| "py_truthy PyNone = False"

text \<open>\<^verbatim>\<open>v is True\<close>: identity with the singleton \<^verbatim>\<open>True\<close>.\<close>

definition py_is_True :: "py_value \<Rightarrow> bool" where
  "py_is_True v = (v = PyBool True)"

subsection \<open>The numpy operations the generator uses\<close>

definition is_integer :: "real \<Rightarrow> bool" where
  "is_integer y = (y = of_int \<lfloor>y\<rfloor>)"

text \<open>\<^verbatim>\<open>x ** y\<close> for an array element \<open>x\<close> and a finite Python float \<open>y\<close>. numpy
  computes \<^verbatim>\<open>x ** 0.5\<close> as \<^verbatim>\<open>sqrt(x)\<close>, which is NaN at minus infinity where \<^verbatim>\<open>pow\<close>
  gives infinity.\<close>

fun np_power :: "np_float \<Rightarrow> real \<Rightarrow> np_float" where
  "np_power x y =
     (if y = 0 then Fin 1
      else case x of
        NaN \<Rightarrow> NaN
      | PInf \<Rightarrow> (if 0 < y then PInf else Fin 0)
      | NInf \<Rightarrow>
          (if y = 1 / 2 then NaN
           else if 0 < y then (if is_integer y \<and> odd \<lfloor>y\<rfloor> then NInf else PInf)
           else Fin 0)
      | Fin r \<Rightarrow>
          (if 0 < r then Fin (r powr y)
           else if r = 0 then (if 0 < y then Fin 0 else PInf)
           else if is_integer y
             then Fin (if odd \<lfloor>y\<rfloor> then - ((- r) powr y) else (- r) powr y)
           else NaN))"

text \<open>\<^verbatim>\<open>1 - x\<close>.\<close>

fun np_one_minus :: "np_float \<Rightarrow> np_float" where
  "np_one_minus (Fin r) = Fin (1 - r)"
| "np_one_minus PInf = NInf"
| "np_one_minus NInf = PInf"
| "np_one_minus NaN = NaN"

text \<open>\<^verbatim>\<open>x * n\<close> for a Python int \<open>n\<close>.\<close>

fun np_times_int :: "np_float \<Rightarrow> int \<Rightarrow> np_float" where
  "np_times_int (Fin r) n = Fin (r * of_int n)"
| "np_times_int PInf n = (if 0 < n then PInf else if n < 0 then NInf else NaN)"
| "np_times_int NInf n = (if 0 < n then NInf else if n < 0 then PInf else NaN)"
| "np_times_int NaN n = NaN"

text \<open>\<^verbatim>\<open>numpy.rint\<close> rounds to the nearest integer, a tie to the even one.\<close>

definition rint_real :: "real \<Rightarrow> int" where
  "rint_real r =
     (let f = \<lfloor>r\<rfloor>; d = r - of_int f
      in if d < 1 / 2 then f
         else if 1 / 2 < d then f + 1
         else if even f then f else f + 1)"

fun np_rint :: "np_float \<Rightarrow> np_float" where
  "np_rint (Fin r) = Fin (of_int (rint_real r))"
| "np_rint PInf = PInf"
| "np_rint NInf = NInf"
| "np_rint NaN = NaN"

text \<open>Rounding a real to float64: to the nearest multiple of the spacing of its
  binade (of \<open>2 ^ -1074\<close> among the subnormals), a tie to the even multiple; a result
  of magnitude \<open>2 ^ 1024\<close> or more is an infinity.\<close>

definition float64_round :: "real \<Rightarrow> np_float" where
  "float64_round x =
     (if x = 0 then Fin 0
      else
        let e = max \<lfloor>log 2 \<bar>x\<bar>\<rfloor> (- 1022);
            ulp = 2 powr of_int (e - 52);
            q = of_int (rint_real (x / ulp)) * ulp
        in if 2 ^ 1024 \<le> \<bar>q\<bar> then (if 0 < x then PInf else NInf) else Fin q)"

text \<open>\<^verbatim>\<open>int(t)\<close> truncates toward zero; it raises on an infinity and on NaN.\<close>

fun py_int :: "np_float \<Rightarrow> py_error + int" where
  "py_int (Fin r) = Inr (if 0 \<le> r then \<lfloor>r\<rfloor> else \<lceil>r\<rceil>)"
| "py_int PInf = Inl OverflowError"
| "py_int NInf = Inl OverflowError"
| "py_int NaN = Inl ValueError"

text \<open>\<^verbatim>\<open>numpy.linspace(0, 1, steps, endpoint=False)\<close>: the points \<open>i / steps\<close> for
  \<open>i < steps\<close>. A negative number of samples is refused, and so is one for which the
  array cannot be allocated.\<close>

definition linspace :: "allocator \<Rightarrow> int \<Rightarrow> py_error + np_float list" where
  "linspace alloc steps =
     (if steps < 0 then Inl ValueError
      else case alloc steps of
        Some e \<Rightarrow> Inl e
      | None \<Rightarrow> Inr (map (\<lambda>i. Fin (real i / of_int steps)) [0..<nat steps]))"

text \<open>\<^verbatim>\<open>sigmas[i]\<close> on a one-dimensional tensor: a negative index counts from the
  end, an index outside the tensor raises.\<close>

definition tensor_item :: "real list \<Rightarrow> int \<Rightarrow> py_error + real" where
  "tensor_item sigmas i =
     (if 0 \<le> i \<and> i < int (length sigmas) then Inr (sigmas ! nat i)
      else if i < 0 \<and> - int (length sigmas) \<le> i then Inr (sigmas ! nat (int (length sigmas) + i))
      else Inl IndexError)"

text \<open>The slices \<^verbatim>\<open>s[:-2]\<close>, \<^verbatim>\<open>s[-1:]\<close> and \<^verbatim>\<open>s[-k:]\<close>. A slice never raises:
  its bounds are clipped to the sequence.\<close>

definition slice_upto_neg :: "nat \<Rightarrow> 'a list \<Rightarrow> 'a list" where
  "slice_upto_neg k s = take (length s - k) s"

definition slice_from :: "int \<Rightarrow> 'a list \<Rightarrow> 'a list" where
  "slice_from start s =
     (if start < 0 then drop (length s - nat (- start)) s else drop (nat start) s)"

subsection \<open>power_shift_scheduler\<close>

text \<open>Line 10, for one element: \<^verbatim>\<open>(1 - x**power)**power\<close>.\<close>

definition ts_normalized :: "real \<Rightarrow> np_float \<Rightarrow> np_float" where
  "ts_normalized power' x = np_power (np_one_minus (np_power x power')) power'"

text \<open>Lines 7 to 11: the array \<^verbatim>\<open>ts\<close>.\<close>

definition timesteps ::
  "allocator \<Rightarrow> int \<Rightarrow> int \<Rightarrow> real \<Rightarrow> real \<Rightarrow> py_error + np_float list" where
  "timesteps alloc total_timesteps steps power' midpoint_shift =
     (case linspace alloc steps of
        Inl e \<Rightarrow> Inl e
      | Inr x \<Rightarrow>
          Inr (map (\<lambda>xi. np_rint (np_times_int
                 (ts_normalized power' (np_power xi midpoint_shift)) total_timesteps)) x))"

text \<open>Line 16: \<^verbatim>\<open>t_int = min(int(t), total_timesteps)\<close>.\<close>

definition t_int_of :: "int \<Rightarrow> np_float \<Rightarrow> py_error + int" where
  "t_int_of total_timesteps t =
     (case py_int t of Inl e \<Rightarrow> Inl e | Inr k \<Rightarrow> Inr (min k total_timesteps))"

text \<open>Lines 15 to 19: the loop, with \<^verbatim>\<open>last_t\<close> and \<^verbatim>\<open>sigs\<close> as accumulators.\<close>

fun collect :: "real list \<Rightarrow> int \<Rightarrow> int \<Rightarrow> real list \<Rightarrow> np_float list \<Rightarrow> py_error + real list" where
  "collect sigmas total_timesteps last_t sigs [] = Inr sigs"
| "collect sigmas total_timesteps last_t sigs (t # ts) =
     (case t_int_of total_timesteps t of
        Inl e \<Rightarrow> Inl e
      | Inr t_int \<Rightarrow>
          if t_int \<noteq> last_t then
            (case tensor_item sigmas t_int of
               Inl e \<Rightarrow> Inl e
             | Inr s \<Rightarrow> collect sigmas total_timesteps t_int (sigs @ [s]) ts)
          else collect sigmas total_timesteps t_int sigs ts)"

definition power_shift_scheduler ::
  "allocator \<Rightarrow> real list \<Rightarrow> int \<Rightarrow> real \<Rightarrow> real \<Rightarrow> py_value \<Rightarrow> py_error + real list" where
  "power_shift_scheduler alloc sigmas steps power' midpoint_shift discard_penultimate =
     (let total_timesteps = int (length sigmas) - 1 in
      case timesteps alloc total_timesteps steps power' midpoint_shift of
        Inl e \<Rightarrow> Inl e
      | Inr ts \<Rightarrow>
          (case collect sigmas total_timesteps (- 1) [] ts of
             Inl e \<Rightarrow> Inl e
           | Inr sigs0 \<Rightarrow>
               let sigs = sigs0 @ [0] in
               if py_is_True discard_penultimate
               then Inr (slice_upto_neg 2 sigs @ slice_from (- 1) sigs)
               else Inr sigs))"

subsection \<open>PowerShiftSchedulerNode.get_sigmas\<close>

text \<open>\<^verbatim>\<open>steps/denoise\<close>, an int by a Python float: the int is converted to a float
  (an int beyond the float range raises), a zero divisor raises, and the quotient is
  rounded; it is an infinity when it overflows.\<close>

definition py_float_of_int :: "int \<Rightarrow> py_error + real" where
  "py_float_of_int a =
     (case float64_round (of_int a) of Fin r \<Rightarrow> Inr r | _ \<Rightarrow> Inl OverflowError)"

definition py_truediv :: "int \<Rightarrow> real \<Rightarrow> py_error + np_float" where
  "py_truediv a b =
     (case py_float_of_int a of
        Inl e \<Rightarrow> Inl e
      | Inr fa \<Rightarrow> if b = 0 then Inl ZeroDivisionError else Inr (float64_round (fa / b)))"

definition get_sigmas ::
  "allocator \<Rightarrow> real list \<Rightarrow> int \<Rightarrow> real \<Rightarrow> real \<Rightarrow> py_value \<Rightarrow> real \<Rightarrow> py_error + real list" where
  "get_sigmas alloc sigmas steps power' midpoint_shift discard_penultimate denoise =
     (case (if denoise < 1 then
              (case py_truediv steps denoise of Inl e \<Rightarrow> Inl e | Inr q \<Rightarrow> py_int q)
            else Inr steps) of
        Inl e \<Rightarrow> Inl e
      | Inr total_steps \<Rightarrow>
          (case power_shift_scheduler alloc sigmas total_steps power' midpoint_shift discard_penultimate of
             Inl e \<Rightarrow> Inl e
           | Inr s \<Rightarrow> Inr (slice_from (- (steps + 1)) s)))"

subsection \<open>Registration\<close>

text \<open>The host's two module-level tables, and lines 55 to 60 as a step on them. The
  handler stored is the function \<^verbatim>\<open>power_shift_scheduler\<close> itself.\<close>

record scheduler_handler =
  handler :: "allocator \<Rightarrow> real list \<Rightarrow> int \<Rightarrow> real \<Rightarrow> real \<Rightarrow> py_value \<Rightarrow> py_error + real list"
  use_ms :: bool

record host =
  scheduler_handlers :: "string \<rightharpoonup> scheduler_handler"
  scheduler_names :: "string list"

definition scheduler_name :: string where
  "scheduler_name = ''power_shift''"

definition register_scheduler :: "host \<Rightarrow> host" where
  "register_scheduler h =
     (if scheduler_name \<notin> dom (scheduler_handlers h) then
        (let scheduler_handler =
               \<lparr>handler = power_shift_scheduler, use_ms = True\<rparr>;
             h1 = h\<lparr>scheduler_handlers := (scheduler_handlers h)(scheduler_name \<mapsto> scheduler_handler)\<rparr>
         in if scheduler_name \<notin> set (scheduler_names h1)
            then h1\<lparr>scheduler_names := scheduler_names h1 @ [scheduler_name]\<rparr>
            else h1)
      else h)"

subsection \<open>Specification-side notions\<close>

text \<open>The indices the loop keeps: one per run of equal consecutive indices, given the
  index before the first.\<close>

fun kept :: "int \<Rightarrow> int list \<Rightarrow> int list" where
  "kept last_t [] = []"
| "kept last_t (k # ks) = (if k \<noteq> last_t then k # kept k ks else kept k ks)"

text \<open>``The output with its second-to-last element removed'': the element at position
  \<open>length - 2\<close> is dropped; a sequence with fewer than two elements has none.\<close>

definition remove_second_to_last :: "'a list \<Rightarrow> 'a list" where
  "remove_second_to_last xs =
     (if 2 \<le> length xs then take (length xs - 2) xs @ [last xs] else xs)"

text \<open>``The last \<open>n\<close> entries'' of a sequence (all of it when it is shorter).\<close>

definition last_entries :: "nat \<Rightarrow> 'a list \<Rightarrow> 'a list" where
  "last_entries n xs = rev (take n (rev xs))"

text \<open>A sample platform for the examples: memory for every array of fewer than
  \<open>2 ^ 64\<close> samples, and beyond that the ValueError (``Maximum allowed size exceeded'')
  with which a 64-bit numpy answers a length that does not fit its index type.\<close>

definition index_limit_alloc :: allocator where
  "index_limit_alloc n = (if 2 ^ 64 \<le> n then Some ValueError else None)"

section \<open>Properties\<close>

subsection \<open>The numeric pipeline stays inside the table\<close>

lemma np_power_unit:
  assumes "0 \<le> r" "r \<le> 1" "0 \<le> y"
  obtains r' where "np_power (Fin r) y = Fin r'" "0 \<le> r'" "r' \<le> 1"
proof (cases "y = 0")
  case True
  then have "np_power (Fin r) y = Fin 1" by simp
  then show ?thesis using that by simp
next
  case False
  show ?thesis
  proof (cases "r = 0")
    case True
    with False assms have "np_power (Fin r) y = Fin 0" by simp
    then show ?thesis using that by simp
  next
    case r: False
    with assms have pos: "0 < r" by simp
    with False have "np_power (Fin r) y = Fin (r powr y)" by simp
    moreover have "r powr y \<le> 1" using assms pos by (simp add: powr_le1)
    moreover have "0 \<le> r powr y" by simp
    ultimately show ?thesis using that by blast
  qed
qed

lemma ts_normalized_unit:
  assumes "0 \<le> r" "r \<le> 1" "0 \<le> y"
  obtains r' where "ts_normalized y (Fin r) = Fin r'" "0 \<le> r'" "r' \<le> 1"
proof -
  obtain a where a: "np_power (Fin r) y = Fin a" "0 \<le> a" "a \<le> 1"
    using assms by (rule np_power_unit)
  have b: "0 \<le> 1 - a" "1 - a \<le> 1" using a by simp_all
  obtain c where c: "np_power (Fin (1 - a)) y = Fin c" "0 \<le> c" "c \<le> 1"
    using b assms(3) by (rule np_power_unit)
  have "ts_normalized y (Fin r) = Fin c"
    unfolding ts_normalized_def using a(1) c(1) by simp
  then show ?thesis using c that by blast
qed

lemma rint_real_range:
  assumes "0 \<le> r" "r \<le> of_int n"
  shows "0 \<le> rint_real r \<and> rint_real r \<le> n"
proof -
  have f0: "0 \<le> \<lfloor>r\<rfloor>" using assms(1) by simp
  have fn: "\<lfloor>r\<rfloor> \<le> n" using assms(2) by (simp add: floor_le_iff)
  have up: "\<lfloor>r\<rfloor> + 1 \<le> n" if "of_int \<lfloor>r\<rfloor> < r"
  proof -
    have "of_int \<lfloor>r\<rfloor> < (of_int n :: real)" using that assms(2) by linarith
    then have "\<lfloor>r\<rfloor> < n" by simp
    then show ?thesis by simp
  qed
  show ?thesis
    unfolding rint_real_def Let_def using f0 fn up by auto
qed

lemma rint_real_zero: "rint_real 0 = 0"
  by (simp add: rint_real_def)

lemma timestep_unit:
  assumes "0 \<le> r" "r \<le> 1" "0 \<le> p" "0 \<le> m" "0 \<le> n"
  obtains k where
    "np_rint (np_times_int (ts_normalized p (np_power (Fin r) m)) n) = Fin (of_int k)"
    "0 \<le> k" "k \<le> n"
proof -
  obtain a where a: "np_power (Fin r) m = Fin a" "0 \<le> a" "a \<le> 1"
    using assms(1,2,4) by (rule np_power_unit)
  obtain b where b: "ts_normalized p (Fin a) = Fin b" "0 \<le> b" "b \<le> 1"
    using a(2,3) assms(3) by (rule ts_normalized_unit)
  have lo: "0 \<le> b * of_int n" using b(2) assms(5) by simp
  have hi: "b * of_int n \<le> of_int n"
  proof -
    have "b * of_int n \<le> 1 * (of_int n :: real)"
      using b(3) assms(5) by (intro mult_right_mono) simp_all
    then show ?thesis by simp
  qed
  have "np_rint (np_times_int (ts_normalized p (np_power (Fin r) m)) n)
      = Fin (of_int (rint_real (b * of_int n)))"
    using a(1) b(1) by simp
  moreover have "0 \<le> rint_real (b * of_int n) \<and> rint_real (b * of_int n) \<le> n"
    using lo hi by (rule rint_real_range)
  ultimately show ?thesis using that by blast
qed

lemma linspace_unit:
  assumes "0 \<le> steps" "alloc steps = None"
  obtains rs where "linspace alloc steps = Inr (map Fin rs)" "length rs = nat steps"
    "list_all (\<lambda>r. 0 \<le> r \<and> r \<le> 1) rs"
proof -
  let ?rs = "map (\<lambda>i. real i / of_int steps) [0..<nat steps]"
  have "linspace alloc steps = Inr (map Fin ?rs)"
    using assms by (simp add: linspace_def comp_def)
  moreover have "length ?rs = nat steps" by simp
  moreover have "list_all (\<lambda>r. 0 \<le> r \<and> r \<le> 1) ?rs"
    using assms(1) by (auto simp: list_all_iff divide_le_eq_1)
  ultimately show ?thesis using that by blast
qed

lemma linspace_refused:
  assumes "0 \<le> steps" "alloc steps = Some e"
  shows "linspace alloc steps = Inl e"
  using assms by (simp add: linspace_def)

lemma map_timestep_unit:
  assumes "list_all (\<lambda>r. 0 \<le> r \<and> r \<le> 1) rs" "0 \<le> p" "0 \<le> m" "0 \<le> n"
  shows "\<exists>ks. map (\<lambda>xi. np_rint (np_times_int (ts_normalized p (np_power xi m)) n)) (map Fin rs)
               = map (\<lambda>k. Fin (of_int k)) ks
             \<and> length ks = length rs \<and> list_all (\<lambda>k. 0 \<le> k \<and> k \<le> n) ks"
  using assms(1)
proof (induction rs)
  case Nil
  then show ?case by simp
next
  case (Cons r rs)
  then obtain ks where ks:
    "map (\<lambda>xi. np_rint (np_times_int (ts_normalized p (np_power xi m)) n)) (map Fin rs)
       = map (\<lambda>k. Fin (of_int k)) ks"
    "length ks = length rs" "list_all (\<lambda>k. 0 \<le> k \<and> k \<le> n) ks"
    by auto
  from Cons.prems have "0 \<le> r" "r \<le> 1" by simp_all
  then obtain k where k:
    "np_rint (np_times_int (ts_normalized p (np_power (Fin r) m)) n) = Fin (of_int k)"
    "0 \<le> k" "k \<le> n"
    using assms(2,3,4) by (rule timestep_unit)
  have "map (\<lambda>xi. np_rint (np_times_int (ts_normalized p (np_power xi m)) n)) (map Fin (r # rs))
       = map (\<lambda>k. Fin (of_int k)) (k # ks)"
    using k(1) ks(1) by simp
  moreover have "length (k # ks) = length (r # rs)" using ks(2) by simp
  moreover have "list_all (\<lambda>k. 0 \<le> k \<and> k \<le> n) (k # ks)" using k(2,3) ks(3) by simp
  ultimately show ?case by blast
qed

lemma timesteps_in_range:
  assumes "0 \<le> steps" "alloc steps = None" "0 \<le> p" "0 \<le> m" "0 \<le> n"
  obtains ks where "timesteps alloc n steps p m = Inr (map (\<lambda>k. Fin (of_int k)) ks)"
    "length ks = nat steps" "list_all (\<lambda>k. 0 \<le> k \<and> k \<le> n) ks"
proof -
  obtain rs where rs: "linspace alloc steps = Inr (map Fin rs)" "length rs = nat steps"
    "list_all (\<lambda>r. 0 \<le> r \<and> r \<le> 1) rs"
    using assms(1,2) by (rule linspace_unit)
  obtain ks where ks:
    "map (\<lambda>xi. np_rint (np_times_int (ts_normalized p (np_power xi m)) n)) (map Fin rs)
       = map (\<lambda>k. Fin (of_int k)) ks"
    "length ks = length rs" "list_all (\<lambda>k. 0 \<le> k \<and> k \<le> n) ks"
    using map_timestep_unit[OF rs(3) assms(3,4,5)] by blast
  have "timesteps alloc n steps p m = Inr (map (\<lambda>k. Fin (of_int k)) ks)"
    unfolding timesteps_def using rs(1) ks(1) by simp
  then show ?thesis using ks(2,3) rs(2) that by simp
qed

lemma t_int_of_in_range:
  assumes "0 \<le> k" "k \<le> n"
  shows "t_int_of n (Fin (of_int k)) = Inr k"
  using assms by (simp add: t_int_of_def)

lemma tensor_item_in_range:
  assumes "0 \<le> k" "k < int (length sigmas)"
  shows "tensor_item sigmas k = Inr (sigmas ! nat k)"
  using assms by (simp add: tensor_item_def)

lemma collect_in_range:
  assumes "list_all (\<lambda>k. 0 \<le> k \<and> k \<le> int (length sigmas) - 1) ks"
  shows "collect sigmas (int (length sigmas) - 1) last_t sigs (map (\<lambda>k. Fin (of_int k)) ks)
         = Inr (sigs @ map (\<lambda>k. sigmas ! nat k) (kept last_t ks))"
  using assms
proof (induction ks arbitrary: last_t sigs)
  case Nil
  then show ?case by simp
next
  case (Cons k ks)
  from Cons.prems have k: "0 \<le> k" "k \<le> int (length sigmas) - 1" and
    rest: "list_all (\<lambda>k. 0 \<le> k \<and> k \<le> int (length sigmas) - 1) ks"
    by simp_all
  have ti: "t_int_of (int (length sigmas) - 1) (Fin (of_int k)) = Inr k"
    using k by (rule t_int_of_in_range)
  have it: "tensor_item sigmas k = Inr (sigmas ! nat k)"
    using k by (simp add: tensor_item_in_range)
  show ?case
    using ti it Cons.IH[OF rest] by simp
qed

lemma length_kept: "length (kept last_t ks) \<le> length ks"
  by (induction ks arbitrary: last_t) (auto simp: le_SucI)

lemma kept_same: "kept k (replicate n k) = []"
  by (induction n) auto

lemma discard_snoc:
  "slice_upto_neg 2 (ys @ [z]) @ slice_from (- 1) (ys @ [z]) = butlast ys @ [z]"
  by (simp add: slice_upto_neg_def slice_from_def butlast_conv_take)

subsection \<open>The generator on its documented domain\<close>

text \<open>On a non-empty table, for a non-negative step count that \<^verbatim>\<open>linspace\<close> can
  allocate and non-negative exponents, every entry of \<^verbatim>\<open>ts\<close> is an index of the
  table, the loop reads the table at the kept indices, and the result is these sigmas
  followed by \<open>0\<close>, the last sigma dropped when the discard flag is \<^verbatim>\<open>True\<close>.\<close>

lemma scheduler_valid:
  assumes "sigmas \<noteq> []" "0 \<le> steps" "alloc steps = None" "0 \<le> p" "0 \<le> m"
  obtains ks where
    "length ks = nat steps"
    "list_all (\<lambda>k. 0 \<le> k \<and> k \<le> int (length sigmas) - 1) ks"
    "timesteps alloc (int (length sigmas) - 1) steps p m = Inr (map (\<lambda>k. Fin (of_int k)) ks)"
    "\<And>d. power_shift_scheduler alloc sigmas steps p m d =
       Inr (if d = PyBool True then butlast (map (\<lambda>k. sigmas ! nat k) (kept (- 1) ks)) @ [0]
            else map (\<lambda>k. sigmas ! nat k) (kept (- 1) ks) @ [0])"
proof -
  have n: "0 \<le> int (length sigmas) - 1" using assms(1) by (cases sigmas) simp_all
  obtain ks where ks:
    "timesteps alloc (int (length sigmas) - 1) steps p m = Inr (map (\<lambda>k. Fin (of_int k)) ks)"
    "length ks = nat steps" "list_all (\<lambda>k. 0 \<le> k \<and> k \<le> int (length sigmas) - 1) ks"
    using assms(2,3,4,5) n by (rule timesteps_in_range)
  have c: "collect sigmas (int (length sigmas) - 1) (- 1) [] (map (\<lambda>k. Fin (of_int k)) ks)
        = Inr (map (\<lambda>k. sigmas ! nat k) (kept (- 1) ks))"
    using collect_in_range[OF ks(3), of "- 1" "[]"] by simp
  have "power_shift_scheduler alloc sigmas steps p m d =
       Inr (if d = PyBool True then butlast (map (\<lambda>k. sigmas ! nat k) (kept (- 1) ks)) @ [0]
            else map (\<lambda>k. sigmas ! nat k) (kept (- 1) ks) @ [0])" for d
    unfolding power_shift_scheduler_def Let_def
    using ks(1) c by (simp add: discard_snoc py_is_True_def)
  then show ?thesis using ks that by blast
qed

text \<open>When \<^verbatim>\<open>linspace\<close> cannot allocate, its error is the generator's.\<close>

lemma scheduler_refused:
  assumes "0 \<le> steps" "alloc steps = Some e"
  shows "power_shift_scheduler alloc sigmas steps p m d = Inl e"
  using assms by (simp add: power_shift_scheduler_def timesteps_def linspace_refused)

text \<open>Whatever the input, a sequence the generator returns ends in \<open>0\<close>.\<close>

lemma returned_ends_in_zero:
  assumes "power_shift_scheduler alloc sigmas steps p m d = Inr out"
  shows "out \<noteq> [] \<and> last out = 0"
  using assms
  by (auto simp: power_shift_scheduler_def Let_def slice_upto_neg_def slice_from_def
      split: sum.splits if_splits)

lemma kept_first:
  assumes "ks \<noteq> []" "list_all (\<lambda>k. 0 \<le> k \<and> k \<le> n) ks"
  shows "kept (- 1) ks \<noteq> []"
  using assms by (cases ks) auto

lemma all_zero:
  "list_all (\<lambda>k. 0 \<le> k \<and> k \<le> (0::int)) ks \<Longrightarrow> ks = replicate (length ks) 0"
  by (induction ks) auto

subsection \<open>Rounding to float64\<close>

lemma rint_real_of_int: "rint_real (of_int k) = k"
  by (simp add: rint_real_def)

text \<open>An integer below \<open>2 ^ 53\<close> is a float64.\<close>

lemma float64_round_int:
  assumes "1 \<le> n" "n < 2 ^ 53"
  shows "float64_round (of_int n) = Fin (of_int n)"
proof -
  let ?x = "of_int n :: real"
  let ?e = "\<lfloor>log 2 \<bar>?x\<bar>\<rfloor>"
  have x1: "1 \<le> ?x" using assms(1) by simp
  have e0: "0 \<le> ?e" using x1 by simp
  have x53: "?x < 2 ^ 53" using assms(2) by (metis of_int_less_iff of_int_numeral of_int_power)
  then have "log 2 ?x < 53" using x1 by (simp add: log_less_iff powr_realpow[symmetric])
  then have e52: "?e \<le> 52" using x1 by (simp add: floor_le_iff)
  define k where "k = nat (52 - ?e)"
  have ek: "?e - 52 = - int k" using e52 by (simp add: k_def)
  have ulp: "(2::real) powr of_int (max ?e (- 1022) - 52) = 1 / 2 ^ k"
    using e0 ek by (simp add: max_def powr_minus_divide powr_realpow)
  have "?x / (1 / 2 ^ k) = of_int (n * 2 ^ k)" by simp
  then have r: "rint_real (?x / (1 / 2 ^ k)) = n * 2 ^ k"
    by (simp only: rint_real_of_int)
  have q: "of_int (rint_real (?x / (1 / 2 ^ k))) * (1 / 2 ^ k) = ?x"
    unfolding r by simp
  have "\<bar>?x\<bar> < 2 ^ 1024"
  proof -
    note x53
    also have "(2::real) ^ 53 \<le> 2 ^ 1024" by (rule power_increasing) simp_all
    finally show ?thesis using x1 by simp
  qed
  then show ?thesis
    unfolding float64_round_def Let_def ulp q using x1 by simp
qed

lemma py_truediv_exact:
  assumes "1 \<le> a" "a < 2 ^ 53" "1 \<le> q" "q < 2 ^ 53" "b \<noteq> 0" "of_int a / b = of_int q"
  shows "py_truediv a b = Inr (Fin (of_int q))"
  using assms float64_round_int[of a] float64_round_int[of q]
  by (simp add: py_truediv_def py_float_of_int_def)

lemma rint_real_ge:
  assumes "of_int k \<le> r"
  shows "k \<le> rint_real r"
proof -
  have "k \<le> \<lfloor>r\<rfloor>" using assms by (simp add: le_floor_iff)
  then show ?thesis by (simp add: rint_real_def Let_def)
qed

text \<open>A real of magnitude \<open>2 ^ 1024\<close> or more rounds to an infinity.\<close>

lemma float64_round_overflow:
  assumes "2 ^ 1024 \<le> x"
  shows "float64_round x = PInf"
proof -
  have x0: "0 < x" using assms by (smt (verit) zero_less_power)
  let ?e = "\<lfloor>log 2 \<bar>x\<bar>\<rfloor>"
  have "(2::real) powr 1024 \<le> x" using assms by (simp add: powr_realpow[symmetric])
  then have "1024 \<le> log 2 x" using x0 by (simp add: le_log_iff)
  then have e: "1024 \<le> ?e" using x0 by (simp add: le_floor_iff)
  then have m: "max ?e (- 1022) = ?e" by simp
  have "of_int ?e \<le> log 2 x" using x0 by simp
  then have "2 powr of_int ?e \<le> 2 powr log 2 x" by simp
  then have lo: "2 powr of_int ?e \<le> x" using x0 by simp
  let ?u = "(2::real) powr of_int (?e - 52)"
  have u0: "0 < ?u" by simp
  have split: "(2::real) powr of_int ?e = 2 ^ 52 * ?u"
  proof -
    have "(2::real) powr of_int ?e = 2 powr (52 + of_int (?e - 52))" by simp
    also have "\<dots> = 2 powr 52 * ?u" by (simp only: powr_add)
    also have "(2::real) powr 52 = 2 ^ 52" by (simp add: powr_realpow[symmetric])
    finally show ?thesis .
  qed
  have "(2::real) ^ 52 \<le> x / ?u"
    using lo split u0 by (simp add: pos_le_divide_eq)
  then have "of_int (2 ^ 52) \<le> x / ?u" by simp
  then have "(2::int) ^ 52 \<le> rint_real (x / ?u)" by (rule rint_real_ge)
  then have "(2::real) ^ 52 \<le> of_int (rint_real (x / ?u))"
    by (metis of_int_le_iff of_int_numeral of_int_power)
  then have "2 ^ 52 * ?u \<le> of_int (rint_real (x / ?u)) * ?u"
    using u0 by (simp add: mult_right_mono)
  moreover have "(2::real) ^ 1024 \<le> 2 powr of_int ?e"
  proof -
    have p: "(2::real) powr of_int 1024 = 2 ^ 1024"
      using powr_realpow[of "2::real" 1024] by simp
    have "(2::real) powr of_int 1024 \<le> 2 powr of_int ?e"
      using e by (simp only: powr_le_cancel_iff of_int_le_iff)
    then show ?thesis by (simp only: p)
  qed
  ultimately have "2 ^ 1024 \<le> of_int (rint_real (x / ?u)) * ?u"
    using split by linarith
  then have "2 ^ 1024 \<le> \<bar>of_int (rint_real (x / ?u)) * ?u\<bar>" by linarith
  then show ?thesis
    unfolding float64_round_def Let_def m using x0 by simp
qed

subsection \<open>Worked examples\<close>

text \<open>A table of five sigmas, four steps, the default exponents: the positions
  \<open>0, 1/4, 1/2, 3/4\<close> give \<open>t_norm = 1, 225/256, 9/16, 49/256\<close>, scaled by 4 and rounded
  \<open>4, 4, 2, 1\<close>; the repeated 4 is read once.\<close>

lemma linspace_3: "linspace index_limit_alloc 3 = Inr [Fin 0, Fin (1 / 3), Fin (2 / 3)]"
  by (simp add: linspace_def index_limit_alloc_def upt_rec[of _ "numeral _"] upt_rec[of _ "Suc _"])

lemma linspace_4:
  "linspace index_limit_alloc 4 = Inr [Fin 0, Fin (1 / 4), Fin (1 / 2), Fin (3 / 4)]"
  by (simp add: linspace_def index_limit_alloc_def upt_rec[of _ "numeral _"] upt_rec[of _ "Suc _"])

lemma rint_real_one: "rint_real 1 = 1"
  by (simp add: rint_real_def)

lemma rint_examples:
  "rint_real 4 = 4" "rint_real (225 / 64) = 4" "rint_real (9 / 4) = 2" "rint_real (49 / 64) = 1"
  by (simp_all add: rint_real_def Let_def)

lemma rint_ties_to_even: "rint_real (5 / 2) = 2" "rint_real (7 / 2) = 4"
  by (simp_all add: rint_real_def Let_def)

lemma timesteps_example:
  "timesteps index_limit_alloc 4 4 2 1 = Inr [Fin 4, Fin 4, Fin 2, Fin 1]"
  by (simp add: timesteps_def linspace_4 ts_normalized_def power2_eq_square rint_examples)

lemma scheduler_example:
  "power_shift_scheduler index_limit_alloc [10, 20, 30, 40, 50] 4 2 1 (PyBool False)
     = Inr [50, 30, 20, 0]"
  "power_shift_scheduler index_limit_alloc [10, 20, 30, 40, 50] 4 2 1 (PyBool True)
     = Inr [50, 30, 0]"
  by (simp_all add: power_shift_scheduler_def timesteps_example t_int_of_def tensor_item_def
      py_is_True_def slice_upto_neg_def slice_from_def)

lemma py_truediv_examples:
  "py_truediv 2 (1 / 2) = Inr (Fin 4)" "py_truediv 10 (1 / 2) = Inr (Fin 20)"
  using py_truediv_exact[of 2 4 "1 / 2"] py_truediv_exact[of 10 20 "1 / 2"] by simp_all

lemma get_sigmas_example:
  "get_sigmas index_limit_alloc [10, 20, 30, 40, 50] 2 2 1 (PyBool False) (1 / 2) = Inr [30, 20, 0]"
  by (simp add: get_sigmas_def py_truediv_examples scheduler_example slice_from_def)

text \<open>The node at \<open>steps = 10\<close>, \<open>denoise = 0.5\<close> on a table of 21 sigmas: the
  generator runs at 20 steps and keeps 17 sigmas, the node returns the last 11 entries.\<close>

lemma linspace_20:
  "linspace index_limit_alloc 20 =
     Inr (map Fin [0, 1 / 20, 1 / 10, 3 / 20, 1 / 5, 1 / 4, 3 / 10, 7 / 20, 2 / 5, 9 / 20,
      1 / 2, 11 / 20, 3 / 5, 13 / 20, 7 / 10, 3 / 4, 4 / 5, 17 / 20, 9 / 10, 19 / 20])"
  by (simp add: linspace_def index_limit_alloc_def upt_rec[of _ "numeral _"] upt_rec[of _ "Suc _"])

lemma timesteps_20:
  "timesteps index_limit_alloc 20 20 2 1 = Inr (map (\<lambda>k. Fin (of_int k))
     [20, 20, 20, 19, 18, 18, 17, 15, 14, 13, 11, 10, 8, 7, 5, 4, 3, 2, 1, 0])"
  by (simp add: timesteps_def linspace_20 ts_normalized_def power2_eq_square rint_real_def Let_def)

lemma scheduler_20:
  "power_shift_scheduler index_limit_alloc
     [100, 101, 102, 103, 104, 105, 106, 107, 108, 109, 110, 111, 112, 113, 114, 115, 116, 117,
      118, 119, 120] 20 2 1 (PyBool False)
   = Inr [120, 119, 118, 117, 115, 114, 113, 111, 110, 108, 107, 105, 104, 103, 102, 101, 100, 0]"
  by (simp add: power_shift_scheduler_def timesteps_20 t_int_of_def tensor_item_def py_is_True_def)

lemma get_sigmas_10:
  "get_sigmas index_limit_alloc
     [100, 101, 102, 103, 104, 105, 106, 107, 108, 109, 110, 111, 112, 113, 114, 115, 116, 117,
      118, 119, 120] 10 2 1 (PyBool False) (1 / 2)
   = Inr [111, 110, 108, 107, 105, 104, 103, 102, 101, 100, 0]"
  by (simp add: get_sigmas_def py_truediv_examples scheduler_20 slice_from_def)

text \<open>Outside the documented domain the generator can raise: with \<open>power = -1/2\<close> the
  position \<open>1/4\<close> gives \<^verbatim>\<open>x**power = 2\<close>, \<^verbatim>\<open>1 - x**power = -1\<close>, and the power
  of that is NaN, which \<^verbatim>\<open>int\<close> refuses.\<close>

lemma negative_power_raises:
  "power_shift_scheduler index_limit_alloc [10, 20] 4 (- (1 / 2)) 1 (PyBool False) = Inl ValueError"
proof -
  have i: "\<not> is_integer (- (1 / 2))"
    by (simp add: is_integer_def)
  have two: "(1 / 4 :: real) powr - (1 / 2) = 2"
    by (simp add: powr_minus_divide powr_half_sqrt real_sqrt_divide)
  have nan: "ts_normalized (- (1 / 2)) (Fin (1 / 4)) = NaN"
    using i by (simp add: ts_normalized_def two)
  have zero: "ts_normalized (- (1 / 2)) (Fin 0) = Fin 0"
    using i by (simp add: ts_normalized_def)
  have "timesteps index_limit_alloc 1 4 (- (1 / 2)) 1 =
      Inr [Fin 0, NaN, np_rint (np_times_int (ts_normalized (- (1 / 2)) (Fin (1 / 2))) 1),
           np_rint (np_times_int (ts_normalized (- (1 / 2)) (Fin (3 / 4))) 1)]"
    by (simp add: timesteps_def linspace_4 nan zero rint_real_zero)
  then show ?thesis
    by (simp add: power_shift_scheduler_def t_int_of_def tensor_item_def)
qed

text \<open>With \<open>midpoint_shift = -1\<close> and \<open>power = 1/2\<close> the position 0 becomes infinity,
  \<^verbatim>\<open>1 - x**power\<close> minus infinity, and its square root NaN.\<close>

lemma negative_shift_raises:
  "power_shift_scheduler index_limit_alloc [10, 20] 1 (1 / 2) (- 1) (PyBool False) = Inl ValueError"
proof -
  have l: "linspace index_limit_alloc 1 = Inr [Fin 0]"
    by (simp add: linspace_def index_limit_alloc_def)
  have "timesteps index_limit_alloc 1 1 (1 / 2) (- 1) = Inr [NaN]"
    by (simp add: timesteps_def l ts_normalized_def)
  then show ?thesis
    by (simp add: power_shift_scheduler_def t_int_of_def)
qed

text \<open>A step count beyond the index type is refused by \<^verbatim>\<open>linspace\<close>.\<close>

lemma huge_steps_refused: "index_limit_alloc (3 * 10 ^ 300) = Some ValueError"
  by (simp add: index_limit_alloc_def)

text \<open>The float64 nearest to \<open>0.1\<close> is \<open>3602879701896397 / 2 ^ 55\<close>, a little above one
  tenth; the exact quotient of 3 by it is a little below 30, and rounds to 30.\<close>

lemma three_by_one_tenth: "py_truediv 3 (3602879701896397 / 2 ^ 55) = Inr (Fin 30)"
proof -
  define x :: real where "x = 3 / (3602879701896397 / 2 ^ 55)"
  have x0: "0 < x" by (simp add: x_def)
  have lo: "16 \<le> x" and hi: "x < 32" by (simp_all add: x_def)
  have "(2::real) powr 4 \<le> x" using lo by simp
  then have l4: "4 \<le> log 2 x" using x0 by (simp only: le_log_iff) 
  have "x < (2::real) powr 5" using hi by simp
  then have l5: "log 2 x < 5" using x0 by (simp only: log_less_iff)
  have e: "\<lfloor>log 2 \<bar>x\<bar>\<rfloor> = 4" using l4 l5 x0 by (simp add: floor_eq_iff)
  have u: "(2::real) powr of_int (max 4 (- 1022) - 52) = 1 / 2 ^ 48"
    using powr_realpow[of "2::real" 48] by (simp add: powr_minus_divide)
  have r: "rint_real (x / (1 / 2 ^ 48)) = 30 * 2 ^ 48"
    by (simp add: x_def rint_real_def Let_def)
  have "float64_round x = Fin 30"
    unfolding float64_round_def Let_def e u r using x0 by simp
  then show ?thesis
    using float64_round_int[of 3] by (simp add: py_truediv_def py_float_of_int_def x_def)
qed

section \<open>The claims\<close>

text \<open>C1. For every sigma table with at least one entry, every \<open>steps \<ge> 1\<close>, every
  non-negative \<open>power\<close> and \<open>midpoint_shift\<close> and every value of the discard flag (the
  two booleans among them): when \<^verbatim>\<open>linspace\<close> can allocate \<open>steps\<close> samples the
  generator returns a sequence, and the last element of that sequence is \<open>0\<close>; when it
  cannot, the generator raises the allocation error and returns no sequence.\<close>

theorem last_sigma_is_zero:
  assumes "sigmas \<noteq> []" "1 \<le> steps" "0 \<le> power'" "0 \<le> midpoint_shift"
  shows "case alloc steps of
           None \<Rightarrow> \<exists>out. power_shift_scheduler alloc sigmas steps power' midpoint_shift
                            discard_penultimate = Inr out
                        \<and> out \<noteq> [] \<and> last out = 0
         | Some e \<Rightarrow> power_shift_scheduler alloc sigmas steps power' midpoint_shift
                       discard_penultimate = Inl e"
proof (cases "alloc steps")
  case None
  from assms have s0: "0 \<le> steps" by simp
  obtain ks where
    "\<And>d. power_shift_scheduler alloc sigmas steps power' midpoint_shift d =
       Inr (if d = PyBool True then butlast (map (\<lambda>k. sigmas ! nat k) (kept (- 1) ks)) @ [0]
            else map (\<lambda>k. sigmas ! nat k) (kept (- 1) ks) @ [0])"
    using scheduler_valid[where alloc = alloc, OF assms(1) s0 None assms(3,4)] by blast
  then show ?thesis using None by simp
next
  case (Some e)
  from assms have s0: "0 \<le> steps" by simp
  show ?thesis using Some scheduler_refused[where alloc = alloc, OF s0 Some] by simp
qed

theorem last_sigma_is_zero_witness:
  "[10, 20, 30, 40, 50 :: real] \<noteq> [] \<and> (1::int) \<le> 4 \<and> (0::real) \<le> 2 \<and> (0::real) \<le> 1
   \<and> index_limit_alloc 4 = None
   \<and> (\<exists>out. power_shift_scheduler index_limit_alloc [10, 20, 30, 40, 50] 4 2 1 (PyBool True) = Inr out
         \<and> out \<noteq> [] \<and> last out = 0)"
  using last_sigma_is_zero[of "[10, 20, 30, 40, 50]" 4 2 1 index_limit_alloc "PyBool True"]
  by (simp add: index_limit_alloc_def)

text \<open>C2, as amended. For every valid input for which \<^verbatim>\<open>linspace\<close> can allocate
  \<open>steps\<close> samples, the generator returns a sequence of at most \<open>steps + 1\<close> elements;
  it has at least 2 elements when the discard flag is not \<^verbatim>\<open>True\<close>, and at least 1
  when it is. When \<^verbatim>\<open>linspace\<close> cannot allocate, the generator raises and returns no
  sequence.\<close>

theorem output_length_bounds:
  assumes "sigmas \<noteq> []" "1 \<le> steps" "0 \<le> power'" "0 \<le> midpoint_shift"
  shows "case alloc steps of
           None \<Rightarrow> \<exists>out. power_shift_scheduler alloc sigmas steps power' midpoint_shift
                            discard_penultimate = Inr out
                        \<and> (if discard_penultimate = PyBool True then 1 else 2) \<le> int (length out)
                        \<and> int (length out) \<le> steps + 1
         | Some e \<Rightarrow> power_shift_scheduler alloc sigmas steps power' midpoint_shift
                       discard_penultimate = Inl e"
proof (cases "alloc steps")
  case None
  from assms have s0: "0 \<le> steps" by simp
  obtain ks where ks:
    "length ks = nat steps"
    "list_all (\<lambda>k. 0 \<le> k \<and> k \<le> int (length sigmas) - 1) ks"
    "\<And>d. power_shift_scheduler alloc sigmas steps power' midpoint_shift d =
       Inr (if d = PyBool True then butlast (map (\<lambda>k. sigmas ! nat k) (kept (- 1) ks)) @ [0]
            else map (\<lambda>k. sigmas ! nat k) (kept (- 1) ks) @ [0])"
    using scheduler_valid[where alloc = alloc, OF assms(1) s0 None assms(3,4)] by blast
  from ks(1) assms(2) have "ks \<noteq> []" by auto
  then have "kept (- 1) ks \<noteq> []" using ks(2) by (rule kept_first)
  then have lo: "1 \<le> length (kept (- 1) ks)" by (simp add: Suc_le_eq)
  have "length (kept (- 1) ks) \<le> length ks" by (rule length_kept)
  then have hi: "int (length (kept (- 1) ks)) \<le> steps" using ks(1) assms(2) by simp
  show ?thesis using None ks(3)[of discard_penultimate] lo hi by auto
next
  case (Some e)
  from assms have s0: "0 \<le> steps" by simp
  show ?thesis using Some scheduler_refused[where alloc = alloc, OF s0 Some] by simp
qed

theorem output_length_bounds_witness:
  "[4, 9 :: real] \<noteq> [] \<and> (1::int) \<le> 3 \<and> (0::real) \<le> 0 \<and> (0::real) \<le> 1
   \<and> index_limit_alloc 3 = None
   \<and> (\<exists>out. power_shift_scheduler index_limit_alloc [4, 9] 3 0 1 (PyBool True) = Inr out
         \<and> (if PyBool True = PyBool True then 1 else 2) \<le> int (length out)
         \<and> int (length out) \<le> 3 + 1)"
  using output_length_bounds[of "[4, 9]" 3 0 1 index_limit_alloc "PyBool True"]
  by (simp add: index_limit_alloc_def)

text \<open>C2 as stated fails: three steps with \<open>power = 0\<close> on a table of two sigmas read
  index 1 three times, so one sigma is kept, and the discard removes it. The output has
  one element.\<close>

theorem min_length_counterexample:
  "power_shift_scheduler index_limit_alloc [4, 9] 3 0 1 (PyBool True) = Inr [0]
   \<and> \<not> 2 \<le> length [0::real]"
  by (simp add: power_shift_scheduler_def timesteps_def linspace_3 ts_normalized_def
      rint_real_one t_int_of_def tensor_item_def py_is_True_def slice_upto_neg_def slice_from_def)

text \<open>C3. For every sigma table, step count and exponents, the output with the discard
  flag \<^verbatim>\<open>True\<close> is the output with the flag \<^verbatim>\<open>False\<close> with its second-to-last
  element removed; where the generator raises, it raises the same error under both.\<close>

theorem discard_removes_second_to_last:
  "power_shift_scheduler alloc sigmas steps power' midpoint_shift (PyBool True) =
     (case power_shift_scheduler alloc sigmas steps power' midpoint_shift (PyBool False) of
        Inl e \<Rightarrow> Inl e
      | Inr out \<Rightarrow> Inr (remove_second_to_last out))"
proof -
  have "slice_upto_neg 2 (ys @ [z]) @ slice_from (- 1) (ys @ [z]) = remove_second_to_last (ys @ [z])"
    for ys :: "real list" and z
    by (cases "ys = []")
      (auto simp: slice_upto_neg_def slice_from_def remove_second_to_last_def Suc_le_eq)
  then show ?thesis
    by (simp add: power_shift_scheduler_def py_is_True_def Let_def split: sum.splits)
qed

text \<open>C4, as amended. When \<open>power = 0\<close>, at every normalized position \<open>x\<close> (zero
  included) the computed \<open>x ** power\<close> is 1 and \<open>1 - x ** power\<close> is 0, and
  \<open>t_norm = (1 - x ** power) ** power = 0 ** 0\<close> is 1: \<open>t_norm\<close> is 1 everywhere, it does
  not collapse toward 0.\<close>

theorem power_zero_ts_normalized:
  "np_power x 0 = Fin 1 \<and> np_one_minus (np_power x 0) = Fin 0 \<and> ts_normalized 0 x = Fin 1"
  by (simp add: ts_normalized_def)

text \<open>C4 as stated fails at \<open>x = 1/2\<close>: \<open>t_norm\<close> is 1 there, not 0.\<close>

theorem power_zero_counterexample:
  "ts_normalized 0 (Fin (1 / 2)) = Fin 1 \<and> ts_normalized 0 (Fin (1 / 2)) \<noteq> Fin 0"
  by (simp add: ts_normalized_def)

text \<open>C5, as amended. For every positive \<open>steps\<close> for which \<^verbatim>\<open>linspace\<close> can allocate
  the samples, every sigma table with at least one entry and every non-negative
  \<open>power\<close> and \<open>midpoint_shift\<close>, the generator returns a sequence (it raises nothing),
  and every entry of \<^verbatim>\<open>ts\<close> yields an index \<^verbatim>\<open>t_int\<close> between 0 and
  \<^verbatim>\<open>total_timesteps\<close>, at which the table can be read. For a positive \<open>steps\<close> for which
  \<^verbatim>\<open>linspace\<close> cannot allocate, the generator raises the error of \<^verbatim>\<open>linspace\<close>.\<close>

theorem scheduler_total:
  assumes "sigmas \<noteq> []" "1 \<le> steps" "0 \<le> power'" "0 \<le> midpoint_shift"
  shows "case alloc steps of
           None \<Rightarrow>
             (\<exists>out. power_shift_scheduler alloc sigmas steps power' midpoint_shift
                      discard_penultimate = Inr out)
             \<and> (\<exists>ts. timesteps alloc (int (length sigmas) - 1) steps power' midpoint_shift = Inr ts
                   \<and> length ts = nat steps
                   \<and> list_all (\<lambda>t. \<exists>t_int. t_int_of (int (length sigmas) - 1) t = Inr t_int
                               \<and> 0 \<le> t_int \<and> t_int \<le> int (length sigmas) - 1
                               \<and> tensor_item sigmas t_int = Inr (sigmas ! nat t_int)) ts)
         | Some e \<Rightarrow> power_shift_scheduler alloc sigmas steps power' midpoint_shift
                       discard_penultimate = Inl e"
proof (cases "alloc steps")
  case None
  from assms have s0: "0 \<le> steps" by simp
  obtain ks where ks:
    "length ks = nat steps"
    "list_all (\<lambda>k. 0 \<le> k \<and> k \<le> int (length sigmas) - 1) ks"
    "timesteps alloc (int (length sigmas) - 1) steps power' midpoint_shift
       = Inr (map (\<lambda>k. Fin (of_int k)) ks)"
    "\<And>d. power_shift_scheduler alloc sigmas steps power' midpoint_shift d =
       Inr (if d = PyBool True then butlast (map (\<lambda>k. sigmas ! nat k) (kept (- 1) ks)) @ [0]
            else map (\<lambda>k. sigmas ! nat k) (kept (- 1) ks) @ [0])"
    using scheduler_valid[where alloc = alloc, OF assms(1) s0 None assms(3,4)] by blast
  have "list_all (\<lambda>t. \<exists>t_int. t_int_of (int (length sigmas) - 1) t = Inr t_int
                         \<and> 0 \<le> t_int \<and> t_int \<le> int (length sigmas) - 1
                         \<and> tensor_item sigmas t_int = Inr (sigmas ! nat t_int))
          (map (\<lambda>k. Fin (of_int k)) ks)"
    using ks(2) by (induction ks) (simp_all add: t_int_of_in_range tensor_item_in_range)
  then show ?thesis using None ks(1,3,4) by simp
next
  case (Some e)
  from assms have s0: "0 \<le> steps" by simp
  show ?thesis using Some scheduler_refused[where alloc = alloc, OF s0 Some] by simp
qed

theorem scheduler_total_witness:
  "[10, 20, 30, 40, 50 :: real] \<noteq> [] \<and> (1::int) \<le> 4 \<and> (0::real) \<le> 2 \<and> (0::real) \<le> 1
   \<and> index_limit_alloc 4 = None
   \<and> (\<exists>out. power_shift_scheduler index_limit_alloc [10, 20, 30, 40, 50] 4 2 1 (PyBool False) = Inr out)
   \<and> (\<exists>ts. timesteps index_limit_alloc (int (length [10, 20, 30, 40, 50 :: real]) - 1) 4 2 1 = Inr ts
          \<and> length ts = nat 4
          \<and> list_all (\<lambda>t. \<exists>t_int. t_int_of (int (length [10, 20, 30, 40, 50 :: real]) - 1) t = Inr t_int
                  \<and> 0 \<le> t_int \<and> t_int \<le> int (length [10, 20, 30, 40, 50 :: real]) - 1
                  \<and> tensor_item [10, 20, 30, 40, 50] t_int = Inr ([10, 20, 30, 40, 50] ! nat t_int)) ts)"
  using scheduler_total[of "[10, 20, 30, 40, 50]" 4 2 1 index_limit_alloc "PyBool False"]
  by (simp add: index_limit_alloc_def)

text \<open>C5 as stated fails: \<open>3 * 10 ^ 300\<close> is a positive step count, the table has an
  entry and the exponents are the defaults, and \<^verbatim>\<open>linspace\<close> raises ValueError.\<close>

theorem scheduler_total_counterexample:
  "power_shift_scheduler index_limit_alloc [1] (3 * 10 ^ 300) 2 1 (PyBool False) = Inl ValueError"
  using scheduler_refused[of "3 * 10 ^ 300" index_limit_alloc ValueError "[1]" 2 1 "PyBool False"]
  by (simp add: index_limit_alloc_def)

text \<open>C6. The node declares \<open>denoise\<close> with minimum 0, and \<^verbatim>\<open>get_sigmas\<close> divides by it:
  at \<open>denoise = 0\<close> the call raises ZeroDivisionError.\<close>

theorem get_sigmas_denoise_zero:
  "get_sigmas alloc [1] 3 2 1 (PyBool False) 0 = Inl ZeroDivisionError"
  using float64_round_int[of 3]
  by (simp add: get_sigmas_def py_truediv_def py_float_of_int_def)

text \<open>When the quotient \<^verbatim>\<open>steps/denoise\<close> overflows, \<^verbatim>\<open>int\<close> refuses the infinity.\<close>

lemma get_sigmas_quotient_overflows:
  assumes "1 \<le> steps" "steps < 2 ^ 53" "0 < denoise" "denoise < 1"
    and "2 ^ 1024 * denoise \<le> of_int steps"
  shows "get_sigmas alloc sigmas steps power' midpoint_shift discard_penultimate denoise
     = Inl OverflowError"
proof -
  have "2 ^ 1024 \<le> of_int steps / denoise"
    using assms(3,5) by (simp add: pos_le_divide_eq)
  then have "float64_round (of_int steps / denoise) = PInf"
    by (rule float64_round_overflow)
  then have "py_truediv steps denoise = Inr PInf"
    using assms(1,2,3) float64_round_int[of steps]
    by (simp add: py_truediv_def py_float_of_int_def)
  then show ?thesis
    using assms(4) by (simp add: get_sigmas_def)
qed

text \<open>C7. With \<open>steps = 10\<close> and \<open>denoise = 0.5\<close>, \<^verbatim>\<open>get_sigmas\<close> runs the generator at
  20 steps and returns the last 11 entries of what it generated, or all of it when it
  has fewer than 11 entries; an error of the generator is passed on.\<close>

theorem get_sigmas_half_denoise:
  "get_sigmas alloc sigmas 10 power' midpoint_shift discard_penultimate (1 / 2) =
     (case power_shift_scheduler alloc sigmas 20 power' midpoint_shift discard_penultimate of
        Inl e \<Rightarrow> Inl e
      | Inr s \<Rightarrow> Inr (if length s < 11 then s else last_entries 11 s))"
proof -
  have "slice_from (- 11) s = (if length s < 11 then s else last_entries 11 s)" for s :: "real list"
    by (simp add: slice_from_def last_entries_def take_rev)
  then show ?thesis
    by (simp add: get_sigmas_def py_truediv_examples split: sum.splits)
qed

text \<open>C8, as amended. When the table has one entry (\<^verbatim>\<open>total_timesteps = 0\<close>), for any
  \<open>steps \<ge> 1\<close> that \<^verbatim>\<open>linspace\<close> can allocate and non-negative exponents the output is
  \<open>[sigma_table[0], 0.0]\<close> when the discard flag is not \<^verbatim>\<open>True\<close>, and \<open>[0.0]\<close> when it
  is. When \<^verbatim>\<open>linspace\<close> cannot allocate, the generator raises and there is no output.\<close>

theorem degenerate_table:
  assumes "length sigmas = 1" "1 \<le> steps" "0 \<le> power'" "0 \<le> midpoint_shift"
  shows "power_shift_scheduler alloc sigmas steps power' midpoint_shift discard_penultimate =
           (case alloc steps of
              None \<Rightarrow> Inr (if discard_penultimate = PyBool True then [0] else [sigmas ! 0, 0])
            | Some e \<Rightarrow> Inl e)"
proof (cases "alloc steps")
  case None
  from assms have s0: "0 \<le> steps" and ne: "sigmas \<noteq> []" by auto
  obtain ks where ks:
    "length ks = nat steps"
    "list_all (\<lambda>k. 0 \<le> k \<and> k \<le> int (length sigmas) - 1) ks"
    "\<And>d. power_shift_scheduler alloc sigmas steps power' midpoint_shift d =
       Inr (if d = PyBool True then butlast (map (\<lambda>k. sigmas ! nat k) (kept (- 1) ks)) @ [0]
            else map (\<lambda>k. sigmas ! nat k) (kept (- 1) ks) @ [0])"
    using scheduler_valid[where alloc = alloc, OF ne s0 None assms(3,4)] by blast
  from ks(2) assms(1) have "ks = replicate (length ks) 0" by (simp add: all_zero)
  moreover obtain n where "nat steps = Suc n" using assms(2) by (cases "nat steps") auto
  ultimately have "ks = replicate (Suc n) 0" using ks(1) by simp
  then have "kept (- 1) ks = [0]" by (simp add: kept_same)
  then show ?thesis using None ks(3)[of discard_penultimate] by simp
next
  case (Some e)
  from assms have s0: "0 \<le> steps" by simp
  show ?thesis using Some scheduler_refused[where alloc = alloc, OF s0 Some] by simp
qed

theorem degenerate_table_witness:
  "length [7 :: real] = 1 \<and> (1::int) \<le> 3 \<and> (0::real) \<le> 2 \<and> (0::real) \<le> 1
   \<and> power_shift_scheduler index_limit_alloc [7] 3 2 1 (PyBool False) = Inr [7, 0]"
  using degenerate_table[of "[7]" 3 2 1 index_limit_alloc "PyBool False"]
  by (simp add: index_limit_alloc_def)

text \<open>C8 as stated fails when the discard flag is \<^verbatim>\<open>True\<close>: the only sigma is removed.\<close>

theorem degenerate_table_counterexample:
  "power_shift_scheduler index_limit_alloc [7] 3 2 1 (PyBool True) = Inr [0]
   \<and> power_shift_scheduler index_limit_alloc [7] 3 2 1 (PyBool True) \<noteq> Inr [[7] ! 0, 0]"
  by (simp add: power_shift_scheduler_def timesteps_def linspace_3 ts_normalized_def
      power2_eq_square rint_real_zero t_int_of_def tensor_item_def py_is_True_def
      slice_upto_neg_def slice_from_def)

text \<open>C9. On a host whose name list holds \<open>power_shift\<close> at most once and holds it
  whenever the handler table has it (a host that never saw the name is one), running
  the registration twice is running it once; afterwards the handler table has an entry
  under the name and the name list holds the name exactly once.\<close>

theorem registration_idempotent:
  assumes "count_list (scheduler_names h) scheduler_name \<le> 1"
    and "scheduler_name \<in> dom (scheduler_handlers h) \<Longrightarrow> scheduler_name \<in> set (scheduler_names h)"
  shows "register_scheduler (register_scheduler h) = register_scheduler h
       \<and> scheduler_name \<in> dom (scheduler_handlers (register_scheduler (register_scheduler h)))
       \<and> count_list (scheduler_names (register_scheduler (register_scheduler h))) scheduler_name = 1"
proof -
  have dom1: "scheduler_name \<in> dom (scheduler_handlers (register_scheduler h))"
    by (auto simp: register_scheduler_def Let_def)
  then have idem: "register_scheduler (register_scheduler h) = register_scheduler h"
    by (subst register_scheduler_def) simp
  have cnt: "count_list (scheduler_names (register_scheduler h)) scheduler_name = 1"
  proof (cases "scheduler_name \<in> set (scheduler_names h)")
    case True
    then have "count_list (scheduler_names h) scheduler_name \<noteq> 0"
      by (simp add: count_list_0_iff)
    with assms(1) have "count_list (scheduler_names h) scheduler_name = 1" by simp
    moreover have "scheduler_names (register_scheduler h) = scheduler_names h"
      using True by (simp add: register_scheduler_def Let_def)
    ultimately show ?thesis by simp
  next
    case False
    with assms(2) have "scheduler_name \<notin> dom (scheduler_handlers h)" by blast
    with False have "scheduler_names (register_scheduler h) = scheduler_names h @ [scheduler_name]"
      by (simp add: register_scheduler_def Let_def)
    moreover have "count_list (scheduler_names h) scheduler_name = 0"
      using False by (simp add: count_list_0_iff)
    ultimately show ?thesis by simp
  qed
  show ?thesis using dom1 idem cnt by simp
qed

theorem registration_idempotent_witness:
  "count_list (scheduler_names \<lparr>scheduler_handlers = Map.empty, scheduler_names = [''normal'', ''karras'']\<rparr>)
     scheduler_name \<le> 1
   \<and> scheduler_name \<notin> dom (scheduler_handlers \<lparr>scheduler_handlers = Map.empty, scheduler_names = [''normal'', ''karras'']\<rparr>)
   \<and> register_scheduler (register_scheduler \<lparr>scheduler_handlers = Map.empty, scheduler_names = [''normal'', ''karras'']\<rparr>)
       = register_scheduler \<lparr>scheduler_handlers = Map.empty, scheduler_names = [''normal'', ''karras'']\<rparr>
   \<and> scheduler_name \<in> dom (scheduler_handlers (register_scheduler (register_scheduler
        \<lparr>scheduler_handlers = Map.empty, scheduler_names = [''normal'', ''karras'']\<rparr>)))
   \<and> count_list (scheduler_names (register_scheduler (register_scheduler
        \<lparr>scheduler_handlers = Map.empty, scheduler_names = [''normal'', ''karras'']\<rparr>))) scheduler_name = 1"
proof -
  let ?h = "\<lparr>scheduler_handlers = Map.empty, scheduler_names = [''normal'', ''karras'']\<rparr>"
  have names: "count_list (scheduler_names ?h) scheduler_name \<le> 1"
    by (simp add: scheduler_name_def)
  have fresh: "scheduler_name \<notin> dom (scheduler_handlers ?h)"
    by simp
  then have listed: "scheduler_name \<in> dom (scheduler_handlers ?h)
      \<Longrightarrow> scheduler_name \<in> set (scheduler_names ?h)"
    by simp
  from registration_idempotent[OF names listed] names fresh show ?thesis
    by blast
qed

text \<open>C10. The generator removes the penultimate element only when the discard flag
  is the boolean \<^verbatim>\<open>True\<close> itself: for every other argument, truthy ones such as the
  integer 1 included, the output is the output for \<^verbatim>\<open>False\<close>.\<close>

theorem discard_only_on_True:
  assumes "discard_penultimate \<noteq> PyBool True"
  shows "power_shift_scheduler alloc sigmas steps power' midpoint_shift discard_penultimate =
         power_shift_scheduler alloc sigmas steps power' midpoint_shift (PyBool False)"
  using assms by (simp add: power_shift_scheduler_def py_is_True_def Let_def split: sum.splits)

theorem discard_only_on_True_witness:
  "py_truthy (PyInt 1) \<and> PyInt 1 \<noteq> PyBool True
   \<and> power_shift_scheduler index_limit_alloc [10, 20, 30, 40, 50] 4 2 1 (PyInt 1)
     = power_shift_scheduler index_limit_alloc [10, 20, 30, 40, 50] 4 2 1 (PyBool False)"
  using discard_only_on_True[of "PyInt 1" index_limit_alloc "[10, 20, 30, 40, 50]" 4 2 1] by simp

end
